theory Spec2Isabelle
  imports Main
begin

section \<open>Data model (api.ts)\<close>

text \<open>
  The interfaces of \<^verbatim>\<open>api.ts\<close> as records. JavaScript numbers that the program uses as
  day counters and scores are integers here; an optional field is an \<open>option\<close>; a field of
  type \<^verbatim>\<open>Record<string, unknown>\<close> that the program never inspects is kept as an opaque
  serialised string. Field names that occur in several interfaces carry the interface's
  name as a prefix, since record fields share one name space.
\<close>

type_synonym raw_record = string

record EndingScore =
  type :: string
  score :: int

text \<open>
  \<open>ending_vector\<close> is a \<^verbatim>\<open>Record<string, number>\<close>. The program reads it only through
  \<^verbatim>\<open>Object.entries\<close>, so it is the list of its entries in enumeration order, which for
  the ending-type labels (strings that are not array indices) is insertion order.
\<close>

record StoryStatus =
  story_id :: string
  title :: string
  day_index :: int
  max_days :: int
  finished :: bool
  last_emotion :: "string option"
  top2_endings :: "EndingScore list"
  ending_vector :: "(string \<times> int) list"
  open_threads :: "string list"
  chapters_count :: int

text \<open>
  The nested \<^verbatim>\<open>ending\<close> payload of a chapter, as far as \<^verbatim>\<open>loadStory\<close> reads it: three
  optional fields.
\<close>

record EndingPayload =
  payload_ending_type :: "string option"
  payload_resolved_threads :: "string list option"
  payload_unresolved_threads :: "string list option"

record Chapter =
  chapter_id :: string
  chapter_story_id :: string
  day :: int
  emotion :: string
  chapter_type :: string
  seed :: "int option"
  chapter_title :: "string option"
  chapter_text :: string
  chapter_summary :: string
  chapter_word_count :: int
  beat_used :: "raw_record option"
  chapter_ending :: "EndingPayload option"
  evaluation :: "raw_record option"
  created_at :: "string option"

record ChapterListResponse =
  response_chapters :: "Chapter list"
  response_total :: int

record EndingResponse =
  ending_type :: string
  ending_title :: string
  ending_text :: string
  word_count :: int
  resolved_threads :: "string list"
  unresolved_threads :: "string list"

record RunDayResponse =
  run_story_id :: string
  day_generated :: int
  run_emotion :: string
  run_chapter_text :: string
  run_ending_vector :: "(string \<times> int) list"
  story_complete :: bool

section \<open>The repository client (api.ts)\<close>

text \<open>
  Everything the client throws is an instance of \<^verbatim>\<open>Error\<close> with a message: the errors it
  constructs itself, the \<^verbatim>\<open>TypeError\<close> of a rejected \<^verbatim>\<open>fetch\<close> or of a property read
  on \<^verbatim>\<open>null\<close>, and the \<^verbatim>\<open>SyntaxError\<close> of \<^verbatim>\<open>response.json()\<close> on a body that is not
  JSON.
\<close>

datatype js_error = Error string | TypeError string | SyntaxError string

fun message :: "js_error \<Rightarrow> string" where
  "message (Error m) = m"
| "message (TypeError m) = m"
| "message (SyntaxError m) = m"

fun instanceof_Error :: "js_error \<Rightarrow> bool" where
  "instanceof_Error (Error m) = True"
| "instanceof_Error (TypeError m) = True"
| "instanceof_Error (SyntaxError m) = True"





























section \<open>The reader component (StoryReader.tsx)\<close>

definition LOADING_MESSAGES :: "string list" where
  "LOADING_MESSAGES =
     [''Weaving the next chapter...'', ''The story unfolds...'',
      ''Characters come to life...'', ''Crafting your narrative...'',
      ''The tale continues...'', ''Words find their way...'',
      ''Building anticipation...'', ''Threads intertwine...'']"

text \<open>The emotion names of \<^verbatim>\<open>ContinueModal.tsx\<close>, the only values its grid can select.\<close>

definition EMOTIONS :: "string list" where
  "EMOTIONS =
     [''kind'', ''prideful'', ''wrathful'', ''envious'', ''fearful'', ''conflicted'',
      ''determined'', ''restless'', ''humble'', ''greedy'', ''lustful'']"

text \<open>The eleven \<^verbatim>\<open>useState\<close> cells of the component, with their initial values.\<close>

record state =
  story :: "StoryStatus option"
  chapters :: "Chapter list"
  loading :: bool
  generating :: bool
  loadingMessage :: string
  error :: string
  showModal :: bool
  ending :: "EndingResponse option"
  generatingEnding :: bool
  insightsOpen :: bool
  selectedChapter :: "int option"

definition initial :: state where
  "initial =
     \<lparr>story = None, chapters = [], loading = True, generating = False,
      loadingMessage = LOADING_MESSAGES ! 0, error = [], showModal = False,
      ending = None, generatingEnding = False, insightsOpen = False,
      selectedChapter = None\<rparr>"

text \<open>The remote calls a handler makes, in the order it makes them.\<close>

datatype call =
  GetStoryCall string
  | ListChaptersCall string
  | RunDayCall string string string
  | GenerateEndingCall string

text \<open>\<^verbatim>\<open>err instanceof Error ? err.message : fallback\<close>\<close>

definition error_text :: "js_error \<Rightarrow> string \<Rightarrow> string" where
  "error_text err fallback = (if instanceof_Error err then message err else fallback)"

subsection \<open>loadStory\<close>

text \<open>
  \<^verbatim>\<open>x || fallback\<close> on an optional string: an absent field and the empty string are both
  falsy.
\<close>

definition string_or :: "string option \<Rightarrow> string \<Rightarrow> string" where
  "string_or d fallback =
     (case d of None \<Rightarrow> fallback | Some m \<Rightarrow> if m = [] then fallback else m)"

text \<open>The ending built from a persisted chapter of type ending (lines 97 to 110).\<close>

definition to_ending :: "Chapter \<Rightarrow> EndingResponse" where
  "to_ending c =
     \<lparr>ending_type =
        (case chapter_ending c of None \<Rightarrow> ''unknown''
         | Some p \<Rightarrow> string_or (payload_ending_type p) ''unknown''),
      ending_title = string_or (chapter_title c) ''The End'',
      ending_text = chapter_text c,
      word_count = chapter_word_count c,
      resolved_threads =
        (case chapter_ending c of None \<Rightarrow> []
         | Some p \<Rightarrow> (case payload_resolved_threads p of None \<Rightarrow> [] | Some ts \<Rightarrow> ts)),
      unresolved_threads =
        (case chapter_ending c of None \<Rightarrow> []
         | Some p \<Rightarrow> (case payload_unresolved_threads p of None \<Rightarrow> [] | Some ts \<Rightarrow> ts))\<rparr>"

definition regular_chapters :: "Chapter list \<Rightarrow> Chapter list" where
  "regular_chapters cs = filter (\<lambda>c. chapter_type c \<noteq> ''ending'') cs"

definition ending_chapter :: "Chapter list \<Rightarrow> Chapter option" where
  "ending_chapter cs = find (\<lambda>c. chapter_type c = ''ending'') cs"

text \<open>
  \<^verbatim>\<open>loadStory\<close> up to its \<^verbatim>\<open>await\<close>, and from there on. The outcome of
  \<^verbatim>\<open>Promise.all\<close> over the two fetches is the input of the second half: both payloads, or
  the error of the fetch that rejected first.
\<close>

type_synonym load_outcome = "js_error + (StoryStatus \<times> ChapterListResponse)"

definition loadStory_begin :: "state \<Rightarrow> state" where
  "loadStory_begin s = s\<lparr>loading := True, error := []\<rparr>"

definition loadStory_loaded :: "state \<Rightarrow> StoryStatus \<Rightarrow> ChapterListResponse \<Rightarrow> state" where
  "loadStory_loaded s storyData chaptersData =
     (let s1 = s\<lparr>story := Some storyData\<rparr>;
          regularChapters = regular_chapters (response_chapters chaptersData);
          endingChapter = ending_chapter (response_chapters chaptersData);
          s2 = s1\<lparr>chapters := regularChapters\<rparr>;
          s3 = (case endingChapter of
                  None \<Rightarrow> s2
                | Some c \<Rightarrow> s2\<lparr>ending := Some (to_ending c)\<rparr>)
      in if length regularChapters > 0
         then s3\<lparr>selectedChapter := Some (day (regularChapters ! 0))\<rparr>
         else s3)"

definition loadStory_settle :: "state \<Rightarrow> load_outcome \<Rightarrow> state" where
  "loadStory_settle s outcome =
     (case outcome of
        Inr (storyData, chaptersData) \<Rightarrow>
          (loadStory_loaded s storyData chaptersData)\<lparr>loading := False\<rparr>
      | Inl err \<Rightarrow>
          s\<lparr>error := error_text err ''Failed to load story'', loading := False\<rparr>)"

definition loadStory :: "string \<Rightarrow> state \<Rightarrow> load_outcome \<Rightarrow> state \<times> call list" where
  "loadStory storyId s outcome =
     (loadStory_settle (loadStory_begin s) outcome,
      [GetStoryCall storyId, ListChaptersCall storyId])"

text \<open>The effect that runs \<^verbatim>\<open>loadStory\<close> when the component mounts.\<close>

definition mount :: "string \<Rightarrow> load_outcome \<Rightarrow> state \<times> call list" where
  "mount storyId outcome = loadStory storyId initial outcome"

subsection \<open>handleContinue and handleGenerateEnding\<close>

definition handleContinue_begin :: "state \<Rightarrow> state" where
  "handleContinue_begin s =
     s\<lparr>showModal := False, generating := True,
       loadingMessage := LOADING_MESSAGES ! 0, error := []\<rparr>"

definition handleContinue_settle ::
  "string \<Rightarrow> state \<Rightarrow> js_error + RunDayResponse \<Rightarrow> load_outcome \<Rightarrow> state \<times> call list" where
  "handleContinue_settle storyId s dayResult outcome =
     (case dayResult of
        Inr resp \<Rightarrow>
          (let (s1, cs) = loadStory storyId s outcome
           in (s1\<lparr>generating := False\<rparr>, cs))
      | Inl err \<Rightarrow>
          (s\<lparr>error := error_text err ''Failed to continue story'', generating := False\<rparr>,
           []))"

definition handleContinue ::
  "string \<Rightarrow> state \<Rightarrow> string \<Rightarrow> js_error + RunDayResponse \<Rightarrow> load_outcome
     \<Rightarrow> state \<times> call list" where
  "handleContinue storyId s chosen dayResult outcome =
     (let (s1, cs) = handleContinue_settle storyId (handleContinue_begin s) dayResult outcome
      in (s1, RunDayCall storyId chosen ''on'' # cs))"

definition handleGenerateEnding_begin :: "state \<Rightarrow> state" where
  "handleGenerateEnding_begin s =
     s\<lparr>generatingEnding := True, loadingMessage := ''Crafting the perfect ending...''\<rparr>"

definition handleGenerateEnding_settle ::
  "string \<Rightarrow> state \<Rightarrow> js_error + EndingResponse \<Rightarrow> load_outcome \<Rightarrow> state \<times> call list" where
  "handleGenerateEnding_settle storyId s generated outcome =
     (case generated of
        Inr result \<Rightarrow>
          (let (s1, cs) = loadStory storyId (s\<lparr>ending := Some result\<rparr>) outcome
           in (s1\<lparr>selectedChapter := Some (- 1), generatingEnding := False\<rparr>, cs))
      | Inl err \<Rightarrow>
          (s\<lparr>error := error_text err ''Failed to generate ending'',
             generatingEnding := False\<rparr>,
           []))"

definition handleGenerateEnding ::
  "string \<Rightarrow> state \<Rightarrow> js_error + EndingResponse \<Rightarrow> load_outcome \<Rightarrow> state \<times> call list" where
  "handleGenerateEnding storyId s generated outcome =
     (let (s1, cs) =
            handleGenerateEnding_settle storyId (handleGenerateEnding_begin s) generated outcome
      in (s1, GenerateEndingCall storyId # cs))"

subsection \<open>Derived values\<close>

text \<open>
  \<^verbatim>\<open>selectedChapter ? chapters.find(...) : chapters[0]\<close>: \<^verbatim>\<open>null\<close> and \<^verbatim>\<open>0\<close> are both
  falsy; \<^verbatim>\<open>chapters[0]\<close> of an empty array is \<^verbatim>\<open>undefined\<close>.
\<close>

definition first_chapter :: "Chapter list \<Rightarrow> Chapter option" where
  "first_chapter cs = (case cs of [] \<Rightarrow> None | c # rest \<Rightarrow> Some c)"

definition currentChapter :: "state \<Rightarrow> Chapter option" where
  "currentChapter s =
     (case selectedChapter s of
        None \<Rightarrow> first_chapter (chapters s)
      | Some n \<Rightarrow>
          if n = 0 then first_chapter (chapters s)
          else find (\<lambda>c. day c = n) (chapters s))"

text \<open>
  \<^verbatim>\<open>Array.prototype.sort\<close> with a comparator: the language guarantees a stable sort, and
  for a consistent comparator that fixes the result, whatever the engine's algorithm. Here
  it is insertion from the right, an element going in front of the first one it does not
  compare greater than.
\<close>

fun insert_by :: "('a \<Rightarrow> 'a \<Rightarrow> int) \<Rightarrow> 'a \<Rightarrow> 'a list \<Rightarrow> 'a list" where
  "insert_by cmp x [] = [x]"
| "insert_by cmp x (y # ys) =
     (if cmp x y \<le> 0 then x # y # ys else y # insert_by cmp x ys)"

definition js_sort :: "('a \<Rightarrow> 'a \<Rightarrow> int) \<Rightarrow> 'a list \<Rightarrow> 'a list" where
  "js_sort cmp xs = foldr (insert_by cmp) xs []"

text \<open>
  The comparator of \<open>getDominantEnding\<close>, and the function. The snapshot's type makes
  \<open>ending_vector\<close> a required field, so the first guard is the test for a missing
  snapshot.
\<close>

definition by_score_desc :: "string \<times> int \<Rightarrow> string \<times> int \<Rightarrow> int" where
  "by_score_desc a b = snd b - snd a"

definition getDominantEnding :: "state \<Rightarrow> EndingScore option" where
  "getDominantEnding s =
     (case story s of
        None \<Rightarrow> None
      | Some st \<Rightarrow>
          (let entries = ending_vector st
           in if length entries = 0 then None
              else (let srt = js_sort by_score_desc entries
                    in Some \<lparr>type = fst (srt ! 0), score = snd (srt ! 0)\<rparr>)))"

subsection \<open>What is rendered, and the events it accepts\<close>

datatype view = Loader | ErrorState | Nothing | Reader

definition view_of :: "state \<Rightarrow> view" where
  "view_of s =
     (if loading s \<and> story s = None then Loader
      else if error s \<noteq> [] \<and> story s = None then ErrorState
      else if story s = None then Nothing
      else Reader)"

definition continue_rendered :: "state \<Rightarrow> bool" where
  "continue_rendered s =
     (case story s of
        None \<Rightarrow> False
      | Some st \<Rightarrow> view_of s = Reader \<and> \<not> finished st \<and> day_index st \<le> max_days st)"

definition continue_disabled :: "state \<Rightarrow> bool" where
  "continue_disabled s = (loading s \<or> generating s)"

definition ending_rendered :: "state \<Rightarrow> bool" where
  "ending_rendered s =
     (case story s of
        None \<Rightarrow> False
      | Some st \<Rightarrow>
          view_of s = Reader \<and> (finished st \<or> day_index st > max_days st) \<and> ending s = None)"

definition ending_disabled :: "state \<Rightarrow> bool" where
  "ending_disabled s = generatingEnding s"

definition error_banner_rendered :: "state \<Rightarrow> bool" where
  "error_banner_rendered s = (view_of s = Reader \<and> error s \<noteq> [])"

definition ending_shown :: "state \<Rightarrow> bool" where
  "ending_shown s = (selectedChapter s = Some (- 1) \<and> ending s \<noteq> None)"

definition start_writing_rendered :: "state \<Rightarrow> bool" where
  "start_writing_rendered s =
     (view_of s = Reader \<and> \<not> ending_shown s \<and> currentChapter s = None)"

definition modal_rendered :: "state \<Rightarrow> bool" where
  "modal_rendered s = (view_of s = Reader \<and> showModal s)"

text \<open>
  The user's actions. An action on a control that is not rendered, or is disabled, does
  nothing. The result is the state when the handler returns or reaches its first
  \<^verbatim>\<open>await\<close>, and the remote calls it has started by then.
\<close>

datatype event =
  ClickContinue | ClickStartWriting | ModalSubmit string | ModalClose
  | ClickGenerateEnding | DismissError | SelectChapter int | SelectEnding | ToggleInsights

fun dispatch :: "string \<Rightarrow> state \<Rightarrow> event \<Rightarrow> state \<times> call list" where
  "dispatch storyId s ClickContinue =
     (if continue_rendered s \<and> \<not> continue_disabled s
      then (s\<lparr>showModal := True\<rparr>, []) else (s, []))"
| "dispatch storyId s ClickStartWriting =
     (if start_writing_rendered s then (s\<lparr>showModal := True\<rparr>, []) else (s, []))"
| "dispatch storyId s (ModalSubmit chosen) =
     (if modal_rendered s \<and> chosen \<in> set EMOTIONS
      then (handleContinue_begin s, [RunDayCall storyId chosen ''on''])
      else (s, []))"
| "dispatch storyId s ModalClose =
     (if modal_rendered s then (s\<lparr>showModal := False\<rparr>, []) else (s, []))"
| "dispatch storyId s ClickGenerateEnding =
     (if ending_rendered s \<and> \<not> ending_disabled s
      then (handleGenerateEnding_begin s, [GenerateEndingCall storyId])
      else (s, []))"
| "dispatch storyId s DismissError =
     (if error_banner_rendered s then (s\<lparr>error := []\<rparr>, []) else (s, []))"
| "dispatch storyId s (SelectChapter d) =
     (if view_of s = Reader \<and> find (\<lambda>c. day c = d) (chapters s) \<noteq> None
      then (s\<lparr>selectedChapter := Some d\<rparr>, []) else (s, []))"
| "dispatch storyId s SelectEnding =
     (if view_of s = Reader \<and> ending s \<noteq> None
      then (s\<lparr>selectedChapter := Some (- 1)\<rparr>, []) else (s, []))"
| "dispatch storyId s ToggleInsights =
     (if view_of s = Reader then (s\<lparr>insightsOpen := \<not> insightsOpen s\<rparr>, []) else (s, []))"

text \<open>A sequence of actions, collecting the calls started.\<close>

fun dispatch_all :: "string \<Rightarrow> state \<Rightarrow> event list \<Rightarrow> state \<times> call list" where
  "dispatch_all storyId s [] = (s, [])"
| "dispatch_all storyId s (e # es) =
     (let (s1, cs) = dispatch storyId s e;
          (s2, ds) = dispatch_all storyId s1 es
      in (s2, cs @ ds))"

subsection \<open>Sample data\<close>

definition sample_story :: "int \<Rightarrow> int \<Rightarrow> bool \<Rightarrow> StoryStatus" where
  "sample_story d m fin =
     \<lparr>story_id = ''s1'', title = ''A Tale'', day_index = d, max_days = m, finished = fin,
      last_emotion = None, top2_endings = [],
      ending_vector = [(''redemption'', 3), (''tragedy'', 3), (''mystery'', 1)],
      open_threads = [], chapters_count = 0\<rparr>"

definition sample_chapter :: "int \<Rightarrow> string \<Rightarrow> Chapter" where
  "sample_chapter d ty =
     \<lparr>chapter_id = ''c'', chapter_story_id = ''s1'', day = d, emotion = ''neutral'',
      chapter_type = ty, seed = None, chapter_title = None, chapter_text = ''Once'',
      chapter_summary = ''Begins'', chapter_word_count = 1, beat_used = None,
      chapter_ending = None, evaluation = None, created_at = None\<rparr>"

definition sample_ending :: EndingResponse where
  "sample_ending =
     \<lparr>ending_type = ''redemption'', ending_title = ''Dawn'', ending_text = ''At last'',
      word_count = 2, resolved_threads = [''feud''], unresolved_threads = []\<rparr>"


definition sample_run :: RunDayResponse where
  "sample_run =
     \<lparr>run_story_id = ''s1'', day_generated = 1, run_emotion = ''kind'',
      run_chapter_text = ''Then'', run_ending_vector = [(''tragedy'', 9)],
      story_complete = True\<rparr>"

section \<open>Properties\<close>

subsection \<open>Auxiliary facts\<close>

lemmas handler_defs =
  loadStory_def loadStory_begin_def loadStory_settle_def loadStory_loaded_def
  handleContinue_def handleContinue_begin_def handleContinue_settle_def
  handleGenerateEnding_def handleGenerateEnding_begin_def handleGenerateEnding_settle_def
  mount_def

lemma error_text_message: "error_text err fallback = message err"
  by (cases err) (simp_all add: error_text_def)

lemma hd_insert_by:
  "hd (insert_by cmp x ys) = (if ys = [] then x else if cmp x (hd ys) \<le> 0 then x else hd ys)"
  by (cases ys) auto

lemma length_insert_by: "length (insert_by cmp x ys) = Suc (length ys)"
  by (induction ys) auto

lemma length_js_sort: "length (js_sort cmp xs) = length xs"
  by (induction xs) (auto simp: js_sort_def length_insert_by)

lemma js_sort_Cons: "js_sort cmp (x # xs) = insert_by cmp x (js_sort cmp xs)"
  by (simp add: js_sort_def)

lemma js_sort_Nil_iff: "js_sort cmp xs = [] \<longleftrightarrow> xs = []"
  using length_js_sort [of cmp xs] by (metis length_0_conv)

text \<open>
  \<open>js_sort\<close> with the comparator of \<open>getDominantEnding\<close> is the stable sort by descending
  score: it keeps the elements, orders them by descending score, and keeps the entries of
  any one score in their given order.
\<close>

lemma set_insert_by: "set (insert_by cmp x ys) = insert x (set ys)"
  by (induction ys) auto

lemma set_js_sort: "set (js_sort cmp xs) = set xs"
  by (induction xs) (auto simp: js_sort_def set_insert_by)

lemma sorted_insert_by_score:
  "sorted_wrt (\<lambda>a b. snd b \<le> snd a) ys \<Longrightarrow>
   sorted_wrt (\<lambda>a b. snd b \<le> snd a) (insert_by by_score_desc x ys)"
  by (induction ys) (auto simp: by_score_desc_def set_insert_by)

lemma js_sort_descending: "sorted_wrt (\<lambda>a b. snd b \<le> snd a) (js_sort by_score_desc xs)"
  by (induction xs) (auto simp: js_sort_Cons sorted_insert_by_score js_sort_def)

lemma filter_insert_by_score:
  "filter (\<lambda>e. snd e = k) (insert_by by_score_desc x ys) =
     (if snd x = k then x # filter (\<lambda>e. snd e = k) ys else filter (\<lambda>e. snd e = k) ys)"
  by (induction ys) (auto simp: by_score_desc_def)

lemma js_sort_stable:
  "filter (\<lambda>e. snd e = k) (js_sort by_score_desc xs) = filter (\<lambda>e. snd e = k) xs"
  by (induction xs) (auto simp: js_sort_Cons filter_insert_by_score js_sort_def)

text \<open>
  The head of the entries sorted by descending score is the first entry, in the given
  order, whose score is maximal.
\<close>

lemma hd_js_sort_first_max:
  "xs \<noteq> [] \<Longrightarrow>
   \<exists>i<length xs. hd (js_sort by_score_desc xs) = xs ! i
      \<and> (\<forall>j<length xs. snd (xs ! j) \<le> snd (xs ! i))
      \<and> (\<forall>j<i. snd (xs ! j) < snd (xs ! i))"
proof (induction xs)
  case Nil
  then show ?case by simp
next
  case (Cons x xs)
  show ?case
  proof (cases "xs = []")
    case True
    then show ?thesis by (simp add: js_sort_def)
  next
    case False
    from Cons.IH [OF False] obtain i where i: "i < length xs"
      and h: "hd (js_sort by_score_desc xs) = xs ! i"
      and mx: "\<forall>j<length xs. snd (xs ! j) \<le> snd (xs ! i)"
      and before: "\<forall>j<i. snd (xs ! j) < snd (xs ! i)"
      by blast
    have ne: "js_sort by_score_desc xs \<noteq> []"
      using False by (simp add: js_sort_Nil_iff)
    show ?thesis
    proof (cases "snd (xs ! i) \<le> snd x")
      case True
      have "hd (js_sort by_score_desc (x # xs)) = x"
        using True ne h by (simp add: js_sort_Cons hd_insert_by by_score_desc_def)
      moreover have "\<forall>j<length (x # xs). snd ((x # xs) ! j) \<le> snd x"
      proof (intro allI impI)
        fix j assume "j < length (x # xs)"
        then show "snd ((x # xs) ! j) \<le> snd x"
          using mx True by (cases j) (auto intro: order_trans)
      qed
      ultimately show ?thesis
        by (intro exI [of _ 0]) simp
    next
      case smaller: False
      have "hd (js_sort by_score_desc (x # xs)) = xs ! i"
        using smaller ne h by (simp add: js_sort_Cons hd_insert_by by_score_desc_def)
      moreover have "\<forall>j<length (x # xs). snd ((x # xs) ! j) \<le> snd (xs ! i)"
      proof (intro allI impI)
        fix j assume "j < length (x # xs)"
        then show "snd ((x # xs) ! j) \<le> snd (xs ! i)"
          using mx smaller by (cases j) auto
      qed
      moreover have "\<forall>j<Suc i. snd ((x # xs) ! j) < snd (xs ! i)"
      proof (intro allI impI)
        fix j assume "j < Suc i"
        then show "snd ((x # xs) ! j) < snd (xs ! i)"
          using before smaller by (cases j) auto
      qed
      ultimately show ?thesis
        using i by (intro exI [of _ "Suc i"]) simp
    qed
  qed
qed

lemma loadStory_selects_first:
  "regular_chapters (response_chapters cl) = c # cs \<Longrightarrow>
   selectedChapter (fst (loadStory storyId s (Inr (st, cl)))) = Some (day c)"
  by (simp add: handler_defs Let_def split: option.splits)

subsection \<open>Selection after a load\<close>

text \<open>
  Claim C1. A successful load with at least one non-ending chapter should select the
  chapter with the largest \<open>day\<close>, whatever was selected before. The code selects the day
  of the first non-ending chapter of the list instead (\<open>loadStory_selects_first\<close>): for
  the day-ascending list of prologue, day 1 and day 2, with day 1 selected by hand before
  the reload, the selection after the load is day 0, not day 2.
\<close>

theorem loadStory_selects_first_not_latest:
  "selectedChapter
     (fst (loadStory ''s1'' (initial\<lparr>selectedChapter := Some 1\<rparr>)
        (Inr (sample_story 3 7 False,
              \<lparr>response_chapters =
                 [sample_chapter 0 ''prologue'', sample_chapter 1 ''day'',
                  sample_chapter 2 ''day''],
               response_total = 3\<rparr>)))) = Some 0"
  by (simp add: handler_defs Let_def regular_chapters_def ending_chapter_def sample_chapter_def)

subsection \<open>Dominant ending\<close>

text \<open>
  Claim C4. For a story whose \<open>ending_vector\<close> is not empty, \<open>getDominantEnding\<close> returns
  an entry of maximal score, and among the entries of maximal score the first one in the
  mapping's order: every entry scores at most as much, and every earlier entry scores
  strictly less.
\<close>

theorem getDominantEnding_first_maximal:
  assumes "story s = Some st" and "ending_vector st \<noteq> []"
  shows "\<exists>i<length (ending_vector st).
           getDominantEnding s =
             Some \<lparr>type = fst (ending_vector st ! i), score = snd (ending_vector st ! i)\<rparr>
           \<and> (\<forall>j<length (ending_vector st).
                 snd (ending_vector st ! j) \<le> snd (ending_vector st ! i))
           \<and> (\<forall>j<i. snd (ending_vector st ! j) < snd (ending_vector st ! i))"
proof -
  have ne: "js_sort by_score_desc (ending_vector st) \<noteq> []"
    using assms(2) by (simp add: js_sort_Nil_iff)
  have "getDominantEnding s =
      Some \<lparr>type = fst (hd (js_sort by_score_desc (ending_vector st))),
            score = snd (hd (js_sort by_score_desc (ending_vector st)))\<rparr>"
    using assms ne by (simp add: getDominantEnding_def Let_def hd_conv_nth)
  with hd_js_sort_first_max [OF assms(2)] show ?thesis
    by auto
qed

text \<open>
  The example of the claim: redemption 3, tragedy 3, mystery 1, in this order, gives
  redemption.
\<close>

theorem getDominantEnding_first_maximal_witness:
  "story (initial\<lparr>story := Some (sample_story 4 7 False)\<rparr>) = Some (sample_story 4 7 False)
   \<and> ending_vector (sample_story 4 7 False)
       = [(''redemption'', 3), (''tragedy'', 3), (''mystery'', 1)]
   \<and> getDominantEnding (initial\<lparr>story := Some (sample_story 4 7 False)\<rparr>)
       = Some \<lparr>type = ''redemption'', score = 3\<rparr>"
  using getDominantEnding_first_maximal
    [of "initial\<lparr>story := Some (sample_story 4 7 False)\<rparr>" "sample_story 4 7 False"]
  by (simp add: getDominantEnding_def sample_story_def js_sort_def by_score_desc_def Let_def)

subsection \<open>Which operations are offered\<close>

text \<open>
  With a story snapshot loaded, the Continue Story control of the header is rendered
  exactly when the story is not finished and \<open>day_index \<le> max_days\<close>, and the Generate
  Ending control exactly when the story is finished or \<open>day_index > max_days\<close>, and no
  ending is held.
\<close>

lemma header_control_guards:
  assumes "story s = Some st"
  shows "(continue_rendered s \<longleftrightarrow> \<not> finished st \<and> day_index st \<le> max_days st)
       \<and> (ending_rendered s \<longleftrightarrow>
            (finished st \<or> day_index st > max_days st) \<and> ending s = None)"
  using assms by (simp add: continue_rendered_def ending_rendered_def view_of_def)


subsection \<open>Failure of a mutation\<close>

text \<open>
  Claim C6. When the remote call of \<open>handleContinue\<close> or of \<open>handleGenerateEnding\<close> fails,
  the story snapshot, the chapter list and the ending are what they were, the failure's
  message is in \<open>error\<close>, the operation's in-flight flag is off again and the other two
  flags are untouched, and the failed call is the only remote call made: nothing is
  retried and nothing is reloaded.
\<close>

theorem failed_mutation_keeps_state:
  "story (fst (handleContinue storyId s chosen (Inl err) outcome)) = story s
   \<and> chapters (fst (handleContinue storyId s chosen (Inl err) outcome)) = chapters s
   \<and> ending (fst (handleContinue storyId s chosen (Inl err) outcome)) = ending s
   \<and> error (fst (handleContinue storyId s chosen (Inl err) outcome)) = message err
   \<and> \<not> generating (fst (handleContinue storyId s chosen (Inl err) outcome))
   \<and> loading (fst (handleContinue storyId s chosen (Inl err) outcome)) = loading s
   \<and> generatingEnding (fst (handleContinue storyId s chosen (Inl err) outcome))
       = generatingEnding s
   \<and> snd (handleContinue storyId s chosen (Inl err) outcome)
       = [RunDayCall storyId chosen ''on'']
   \<and> story (fst (handleGenerateEnding storyId s (Inl err) outcome)) = story s
   \<and> chapters (fst (handleGenerateEnding storyId s (Inl err) outcome)) = chapters s
   \<and> ending (fst (handleGenerateEnding storyId s (Inl err) outcome)) = ending s
   \<and> error (fst (handleGenerateEnding storyId s (Inl err) outcome)) = message err
   \<and> \<not> generatingEnding (fst (handleGenerateEnding storyId s (Inl err) outcome))
   \<and> loading (fst (handleGenerateEnding storyId s (Inl err) outcome)) = loading s
   \<and> generating (fst (handleGenerateEnding storyId s (Inl err) outcome)) = generating s
   \<and> snd (handleGenerateEnding storyId s (Inl err) outcome) = [GenerateEndingCall storyId]"
  by (simp add: handler_defs error_text_message)

subsection \<open>The displayed chapter\<close>

text \<open>
  Claim C10. With a non-empty chapter list and day 0 selected, the displayed chapter is
  the first element of the list, exactly as with no selection at all; the chapter whose
  \<open>day\<close> is 0 is not looked up, and the reader shows that chapter, not the ending.
\<close>

theorem currentChapter_day_zero_is_first:
  assumes "chapters s \<noteq> []" and "selectedChapter s = Some 0"
  shows "currentChapter s = Some (chapters s ! 0)
       \<and> currentChapter s = currentChapter (s\<lparr>selectedChapter := None\<rparr>)
       \<and> \<not> ending_shown s"
  using assms
  by (cases "chapters s") (simp_all add: currentChapter_def first_chapter_def ending_shown_def)

text \<open>
  In the list of day 1 followed by the prologue, selecting day 0 displays day 1, although
  a lookup of day 0 finds the prologue.
\<close>

theorem currentChapter_day_zero_is_first_witness:
  "currentChapter
     (initial\<lparr>chapters := [sample_chapter 1 ''day'', sample_chapter 0 ''prologue''],
              selectedChapter := Some 0\<rparr>) = Some (sample_chapter 1 ''day'')
   \<and> find (\<lambda>c. day c = 0) [sample_chapter 1 ''day'', sample_chapter 0 ''prologue'']
       = Some (sample_chapter 0 ''prologue'')"
  using currentChapter_day_zero_is_first
    [of "initial\<lparr>chapters := [sample_chapter 1 ''day'', sample_chapter 0 ''prologue''],
                  selectedChapter := Some 0\<rparr>"]
  by (simp add: sample_chapter_def)

subsection \<open>What a reload does to the session\<close>

lemma loadStory_story: "story (fst (loadStory storyId s (Inr (st, cl)))) = Some st"
  by (simp add: handler_defs Let_def split: option.splits)

lemma loadStory_chapters:
  "chapters (fst (loadStory storyId s (Inr (st, cl)))) = regular_chapters (response_chapters cl)"
  by (simp add: handler_defs Let_def split: option.splits)

lemma loadStory_ending:
  "ending (fst (loadStory storyId s (Inr (st, cl)))) =
     (case ending_chapter (response_chapters cl) of
        None \<Rightarrow> ending s | Some c \<Rightarrow> Some (to_ending c))"
  by (simp add: handler_defs Let_def split: option.splits)

lemma loadStory_failed_ending: "ending (fst (loadStory storyId s (Inl err))) = ending s"
  by (simp add: handler_defs)

lemma loadStory_loading: "\<not> loading (fst (loadStory storyId s outcome))"
  by (cases outcome) (auto simp add: handler_defs Let_def split: option.splits)

lemma handleContinue_reload:
  "fst (handleContinue storyId s chosen (Inr resp) outcome) =
     (fst (loadStory storyId (handleContinue_begin s) outcome))\<lparr>generating := False\<rparr>"
  by (simp add: handleContinue_def handleContinue_settle_def loadStory_def)

text \<open>
  The chapters of a story are append-only. So an ending that a load took from the chapter
  list is still listed by any later load.
\<close>

lemma listed_after_append:
  "ending_chapter cs \<noteq> None \<Longrightarrow> ending_chapter (cs @ added) \<noteq> None"
  by (induction cs) (auto simp: ending_chapter_def)

lemma loaded_ending_listed_after_append:
  assumes "ending s0 = None"
    and "response_chapters cl = response_chapters cl0 @ added"
  shows "ending (fst (loadStory storyId s0 (Inr (st0, cl0)))) = None
       \<or> ending_chapter (response_chapters cl) \<noteq> None"
  using assms listed_after_append [of "response_chapters cl0" added]
  by (auto simp: loadStory_ending split: option.splits)

text \<open>
  Claim C2. After a successful day submission whose reload succeeds, the story snapshot,
  the chapter list and the ending are those of a fresh load of the same responses
  (\<open>mount\<close>: a load from the initial state), for a session that holds no ending or whose
  ending is still listed in the reloaded chapters, as it is with append-only chapters. The
  state and the calls do not depend on the submission's response, the calls are the
  submission followed by the two fetches of a reload, and the handler ends with neither
  \<open>generating\<close> nor \<open>loading\<close> set.
\<close>

theorem handleContinue_equals_fresh_load:
  assumes "ending s = None \<or> ending_chapter (response_chapters cl) \<noteq> None"
  shows "story (fst (handleContinue storyId s chosen (Inr resp) (Inr (st, cl))))
     = story (fst (mount storyId (Inr (st, cl))))
   \<and> chapters (fst (handleContinue storyId s chosen (Inr resp) (Inr (st, cl))))
     = chapters (fst (mount storyId (Inr (st, cl))))
   \<and> ending (fst (handleContinue storyId s chosen (Inr resp) (Inr (st, cl))))
     = ending (fst (mount storyId (Inr (st, cl))))
   \<and> handleContinue storyId s chosen (Inr resp) outcome
     = handleContinue storyId s chosen (Inr other) outcome
   \<and> snd (handleContinue storyId s chosen (Inr resp) outcome)
     = [RunDayCall storyId chosen ''on'', GetStoryCall storyId, ListChaptersCall storyId]
   \<and> \<not> generating (fst (handleContinue storyId s chosen (Inr resp) outcome))
   \<and> \<not> loading (fst (handleContinue storyId s chosen (Inr resp) outcome))"
proof (intro conjI)
  show "story (fst (handleContinue storyId s chosen (Inr resp) (Inr (st, cl))))
     = story (fst (mount storyId (Inr (st, cl))))"
    by (simp add: handleContinue_reload loadStory_story mount_def)
  show "chapters (fst (handleContinue storyId s chosen (Inr resp) (Inr (st, cl))))
     = chapters (fst (mount storyId (Inr (st, cl))))"
    by (simp add: handleContinue_reload loadStory_chapters mount_def)
  show "ending (fst (handleContinue storyId s chosen (Inr resp) (Inr (st, cl))))
     = ending (fst (mount storyId (Inr (st, cl))))"
    using assms
    by (auto simp add: handleContinue_reload loadStory_ending mount_def initial_def
        handleContinue_begin_def split: option.splits)
  show "handleContinue storyId s chosen (Inr resp) outcome
     = handleContinue storyId s chosen (Inr other) outcome"
    by (simp add: handleContinue_def handleContinue_settle_def)
  show "snd (handleContinue storyId s chosen (Inr resp) outcome)
     = [RunDayCall storyId chosen ''on'', GetStoryCall storyId, ListChaptersCall storyId]"
    by (simp add: handleContinue_def handleContinue_settle_def loadStory_def)
  show "\<not> generating (fst (handleContinue storyId s chosen (Inr resp) outcome))"
    by (simp add: handleContinue_reload)
  show "\<not> loading (fst (handleContinue storyId s chosen (Inr resp) outcome))"
    by (simp add: handleContinue_reload loadStory_loading)
qed

text \<open>
  A session opened on day 1 of 7 with the prologue holds no ending; after a day submission
  whose reload brings the prologue and day 1, it holds the reloaded snapshot and chapters
  and still no ending, whatever the submission answered.
\<close>

theorem handleContinue_equals_fresh_load_witness:
  "ending (fst (mount ''s1'' (Inr (sample_story 1 7 False,
          \<lparr>response_chapters = [sample_chapter 0 ''prologue''], response_total = 1\<rparr>)))) = None
   \<and> story (fst (handleContinue ''s1''
       (fst (mount ''s1'' (Inr (sample_story 1 7 False,
          \<lparr>response_chapters = [sample_chapter 0 ''prologue''], response_total = 1\<rparr>))))
       ''kind'' (Inr sample_run)
       (Inr (sample_story 2 7 False,
          \<lparr>response_chapters = [sample_chapter 0 ''prologue'', sample_chapter 1 ''day''],
           response_total = 2\<rparr>)))) = Some (sample_story 2 7 False)
   \<and> chapters (fst (handleContinue ''s1''
       (fst (mount ''s1'' (Inr (sample_story 1 7 False,
          \<lparr>response_chapters = [sample_chapter 0 ''prologue''], response_total = 1\<rparr>))))
       ''kind'' (Inr sample_run)
       (Inr (sample_story 2 7 False,
          \<lparr>response_chapters = [sample_chapter 0 ''prologue'', sample_chapter 1 ''day''],
           response_total = 2\<rparr>)))) = [sample_chapter 0 ''prologue'', sample_chapter 1 ''day'']
   \<and> ending (fst (handleContinue ''s1''
       (fst (mount ''s1'' (Inr (sample_story 1 7 False,
          \<lparr>response_chapters = [sample_chapter 0 ''prologue''], response_total = 1\<rparr>))))
       ''kind'' (Inr sample_run)
       (Inr (sample_story 2 7 False,
          \<lparr>response_chapters = [sample_chapter 0 ''prologue'', sample_chapter 1 ''day''],
           response_total = 2\<rparr>)))) = None"
  using handleContinue_equals_fresh_load [of
      "fst (mount ''s1'' (Inr (sample_story 1 7 False,
          \<lparr>response_chapters = [sample_chapter 0 ''prologue''], response_total = 1\<rparr>)))"
      "\<lparr>response_chapters = [sample_chapter 0 ''prologue'', sample_chapter 1 ''day''],
           response_total = 2\<rparr>"
      "''s1''" "''kind''" sample_run "sample_story 2 7 False"]
  by (simp add: loadStory_ending loadStory_chapters loadStory_story mount_def initial_def
        ending_chapter_def regular_chapters_def sample_chapter_def)

text \<open>
  Claim C7, as stated, fails: a reload replaces the ending the session holds by the
  projection of the persisted ending chapter, without comparing the two. Here the ending
  returned by the generate-ending call (type redemption, title Dawn) is replaced, in the
  reload of the same handler, by the projection of an ending chapter that has no nested
  payload and no title (type unknown, title The End).
\<close>

theorem reload_replaces_generated_ending:
  "ending (fst (handleGenerateEnding ''s1''
       (fst (mount ''s1'' (Inr (sample_story 8 7 False,
          \<lparr>response_chapters = [sample_chapter 0 ''prologue''], response_total = 1\<rparr>))))
       (Inr sample_ending)
       (Inr (sample_story 8 7 True,
          \<lparr>response_chapters = [sample_chapter 0 ''prologue'', sample_chapter 8 ''ending''],
           response_total = 2\<rparr>))))
   = Some \<lparr>ending_type = ''unknown'', ending_title = ''The End'', ending_text = ''Once'',
      word_count = 1, resolved_threads = [], unresolved_threads = []\<rparr>
  \<and> Some \<lparr>ending_type = ''unknown'', ending_title = ''The End'', ending_text = ''Once'',
      word_count = 1, resolved_threads = [], unresolved_threads = []\<rparr> \<noteq> Some sample_ending"
  by (simp add: handleGenerateEnding_def handleGenerateEnding_settle_def loadStory_def
      loadStory_settle_def loadStory_loaded_def Let_def
      ending_chapter_def regular_chapters_def sample_chapter_def to_ending_def string_or_def
      sample_ending_def)

text \<open>
  Claim C7, amended. A reload never clears an ending. After a successful reload the ending
  is the projection of the first ending chapter of the reloaded list when there is one,
  and the ending held before when there is none; a failed reload leaves it as it was. So
  a session that holds an ending still holds one after any reload, and reloading the same
  chapter list again reproduces the same ending.
\<close>

theorem reload_ending:
  "ending (fst (loadStory storyId s (Inr (st, cl)))) =
     (case ending_chapter (response_chapters cl) of
        None \<Rightarrow> ending s | Some c \<Rightarrow> Some (to_ending c))
   \<and> ending (fst (loadStory storyId s (Inl err))) = ending s
   \<and> (ending s \<noteq> None \<longrightarrow> ending (fst (loadStory storyId s outcome)) \<noteq> None)
   \<and> ending (fst (loadStory storyId (fst (loadStory storyId s (Inr (st, cl)))) (Inr (st', cl))))
       = ending (fst (loadStory storyId s (Inr (st, cl))))"
proof (intro conjI)
  show "ending s \<noteq> None \<longrightarrow> ending (fst (loadStory storyId s outcome)) \<noteq> None"
  proof (cases outcome)
    case (Inl e)
    then show ?thesis by (simp add: loadStory_failed_ending)
  next
    case (Inr p)
    then show ?thesis by (cases p) (simp add: loadStory_ending split: option.splits)
  qed
qed (simp_all add: loadStory_ending loadStory_failed_ending split: option.splits)

theorem reload_ending_witness:
  "ending (initial\<lparr>ending := Some sample_ending\<rparr>) \<noteq> None
   \<and> ending (fst (loadStory ''s1'' (initial\<lparr>ending := Some sample_ending\<rparr>)
        (Inr (sample_story 8 7 True,
          \<lparr>response_chapters = [sample_chapter 0 ''prologue''], response_total = 1\<rparr>))))
      = Some sample_ending"
  using reload_ending [of "''s1''" "initial\<lparr>ending := Some sample_ending\<rparr>"
      "sample_story 8 7 True"
      "\<lparr>response_chapters = [sample_chapter 0 ''prologue''], response_total = 1\<rparr>"]
  by (simp add: ending_chapter_def sample_chapter_def)

subsection \<open>Failures of the repository client\<close>








subsection \<open>The error slot\<close>

text \<open>
  Claim C9, as stated, fails: the operations share one slot. A day submission whose
  reload fails records the load's failure; the next day submission, failing itself,
  records its own failure in the same place, and the load's is gone.
\<close>

theorem advance_failure_overwrites_load_error:
  "error (fst (handleContinue ''s1''
      (fst (mount ''s1'' (Inr (sample_story 4 7 False,
          \<lparr>response_chapters = [sample_chapter 0 ''prologue''], response_total = 1\<rparr>))))
      ''kind'' (Inr sample_run) (Inl (Error ''Failed to list chapters''))))
     = ''Failed to list chapters''
   \<and> error (fst (handleContinue ''s1''
      (fst (handleContinue ''s1''
        (fst (mount ''s1'' (Inr (sample_story 4 7 False,
          \<lparr>response_chapters = [sample_chapter 0 ''prologue''], response_total = 1\<rparr>))))
        ''kind'' (Inr sample_run) (Inl (Error ''Failed to list chapters''))))
      ''kind'' (Inl (Error ''Failed to run day'')) (Inl (Error ''Failed to list chapters''))))
     = ''Failed to run day''"
  by (simp add: handler_defs error_text_message)

text \<open>
  Claim C9, amended. The session has a single error slot. A failed load, a failed day
  submission and a failed ending generation each put their message there, whatever it
  held; starting a load or a day submission empties it. Dismissing the displayed error
  empties the slot, changes nothing else of the session and starts no remote call.
\<close>

theorem error_slot_is_shared:
  "error (fst (loadStory storyId s (Inl err))) = message err
   \<and> error (fst (handleContinue storyId s chosen (Inl err) outcome)) = message err
   \<and> error (fst (handleGenerateEnding storyId s (Inl err) outcome)) = message err
   \<and> error (loadStory_begin s) = []
   \<and> error (handleContinue_begin s) = []
   \<and> (error_banner_rendered s \<longrightarrow> dispatch storyId s DismissError = (s\<lparr>error := []\<rparr>, []))"
  by (simp add: handler_defs error_text_message)

theorem error_slot_is_shared_witness:
  "error_banner_rendered
     (initial\<lparr>story := Some (sample_story 4 7 False), error := ''Failed to run day''\<rparr>)
   \<and> dispatch ''s1''
       (initial\<lparr>story := Some (sample_story 4 7 False), error := ''Failed to run day''\<rparr>)
       DismissError
     = (initial\<lparr>story := Some (sample_story 4 7 False), error := []\<rparr>, [])"
  using error_slot_is_shared [of "''s1''"
      "initial\<lparr>story := Some (sample_story 4 7 False), error := ''Failed to run day''\<rparr>"]
  by (simp add: error_banner_rendered_def view_of_def)

subsection \<open>Requests while an operation is in flight\<close>

text \<open>
  The two header controls refuse: Continue Story while a load or a day submission is in
  flight, Generate Ending while an ending generation is in flight.
\<close>

lemma continue_refused_in_flight:
  "loading s \<or> generating s \<Longrightarrow> dispatch storyId s ClickContinue = (s, [])"
  by (simp add: continue_disabled_def)

lemma ending_refused_in_flight:
  "generatingEnding s \<Longrightarrow> dispatch storyId s ClickGenerateEnding = (s, [])"
  by (simp add: ending_disabled_def)

text \<open>
  On one snapshot the two header controls are never rendered together, so while the
  operation started from one of them is in flight the other is not there to be used.
\<close>

lemma header_controls_exclusive: "\<not> (continue_rendered s \<and> ending_rendered s)"
  by (auto simp: continue_rendered_def ending_rendered_def split: option.splits)

text \<open>
  Claim C3. A second advance-day request while one is in flight should be refused
  without a second remote call. The Start Writing control of the empty state has no such
  guard: on a story loaded with no chapters, Start Writing and a submitted emotion start a
  day submission (\<open>generating\<close> is set), and the same two actions again, while it is in
  flight, start a second one.
\<close>

theorem second_advance_through_empty_state:
  "generating (fst (dispatch_all ''s1''
      (fst (mount ''s1'' (Inr (sample_story 1 7 False,
          \<lparr>response_chapters = [], response_total = 0\<rparr>))))
      [ClickStartWriting, ModalSubmit ''kind'']))
   \<and> snd (dispatch_all ''s1''
      (fst (mount ''s1'' (Inr (sample_story 1 7 False,
          \<lparr>response_chapters = [], response_total = 0\<rparr>))))
      [ClickStartWriting, ModalSubmit ''kind'', ClickStartWriting, ModalSubmit ''wrathful''])
     = [RunDayCall ''s1'' ''kind'' ''on'', RunDayCall ''s1'' ''wrathful'' ''on'']"
  by (simp add: handler_defs Let_def regular_chapters_def ending_chapter_def
      start_writing_rendered_def modal_rendered_def view_of_def ending_shown_def
      currentChapter_def first_chapter_def EMOTIONS_def initial_def)

end
